theory Spec2Isabelle
  imports Complex_Main
begin

section \<open>The omnidirectional camera model of \<^verbatim>\<open>ocam.cpp\<close>\<close>

text \<open>
  The class \<^verbatim>\<open>OCam\<close> holds the calibration of a fisheye camera and maps 3D points to
  pixels (\<^verbatim>\<open>project3\<close>) and pixels to bearing vectors (\<^verbatim>\<open>backProject3\<close>).  The embedding
  below follows the source statement by statement.  A \<^verbatim>\<open>double\<close> is modelled as a
  \<^typ>\<open>real\<close>: rounding, infinities and NaN are outside the model, so every statement
  is one of exact real arithmetic.  HOL's \<open>x / 0 = 0\<close> is not what the machine computes,
  so the theorems about \<^verbatim>\<open>project3\<close> assume a point off the optical axis, and those
  that need the inverse of the affine correction assume that it is not singular.
\<close>

subsection \<open>Vectors and matrices\<close>

text \<open>
  \<^verbatim>\<open>Eigen::Vector2d\<close> and \<^verbatim>\<open>Eigen::Vector3d\<close> are tuples.  The longer fixed-size
  columns (\<^verbatim>\<open>Eigen::Matrix<double, 5, 1>\<close>, \<^verbatim>\<open>Eigen::Matrix<double, 12, 1>\<close>) are
  functions from the index to the coefficient; only indices below the size are read.
\<close>

type_synonym vec2 = "real \<times> real"
type_synonym vec3 = "real \<times> real \<times> real"
type_synonym vecN = "nat \<Rightarrow> real"

record mat2 =
  m00 :: real
  m01 :: real
  m10 :: real
  m11 :: real

record mat23 =
  j00 :: real
  j01 :: real
  j02 :: real
  j10 :: real
  j11 :: real
  j12 :: real

definition mat2_vec :: "mat2 \<Rightarrow> vec2 \<Rightarrow> vec2" where
  "mat2_vec A v = (m00 A * fst v + m01 A * snd v, m10 A * fst v + m11 A * snd v)"

definition mat2_mat2 :: "mat2 \<Rightarrow> mat2 \<Rightarrow> mat2" where
  "mat2_mat2 A B =
     \<lparr> m00 = m00 A * m00 B + m01 A * m10 B, m01 = m00 A * m01 B + m01 A * m11 B,
       m10 = m10 A * m00 B + m11 A * m10 B, m11 = m10 A * m01 B + m11 A * m11 B \<rparr>"

definition mat2_mat23 :: "mat2 \<Rightarrow> mat23 \<Rightarrow> mat23" where
  "mat2_mat23 A J =
     \<lparr> j00 = m00 A * j00 J + m01 A * j10 J,
       j01 = m00 A * j01 J + m01 A * j11 J,
       j02 = m00 A * j02 J + m01 A * j12 J,
       j10 = m10 A * j00 J + m11 A * j10 J,
       j11 = m10 A * j01 J + m11 A * j11 J,
       j12 = m10 A * j02 J + m11 A * j12 J \<rparr>"

definition mat2_identity :: mat2 where
  "mat2_identity = \<lparr> m00 = 1, m01 = 0, m10 = 0, m11 = 1 \<rparr>"

definition vec2_add :: "vec2 \<Rightarrow> vec2 \<Rightarrow> vec2" where
  "vec2_add a b = (fst a + fst b, snd a + snd b)"

definition vec2_sub :: "vec2 \<Rightarrow> vec2 \<Rightarrow> vec2" where
  "vec2_sub a b = (fst a - fst b, snd a - snd b)"

definition vec2_norm :: "vec2 \<Rightarrow> real" where
  "vec2_norm v = sqrt (fst v * fst v + snd v * snd v)"

definition vec3_squaredNorm :: "vec3 \<Rightarrow> real" where
  "vec3_squaredNorm v = (case v of (a, b, c) \<Rightarrow> a * a + b * b + c * c)"

definition vec3_norm :: "vec3 \<Rightarrow> real" where
  "vec3_norm v = sqrt (vec3_squaredNorm v)"

text \<open>
  \<^verbatim>\<open>MatrixBase::determinant\<close> and \<^verbatim>\<open>MatrixBase::inverse\<close> at size 2 are closed forms
  in Eigen: the adjugate scaled by the reciprocal of the determinant.
\<close>

definition mat2_determinant :: "mat2 \<Rightarrow> real" where
  "mat2_determinant A = m00 A * m11 A - m10 A * m01 A"

definition mat2_inverse :: "mat2 \<Rightarrow> mat2" where
  "mat2_inverse A =
     (let invdet = 1 / mat2_determinant A
      in \<lparr> m00 = m11 A * invdet, m01 = - m01 A * invdet,
           m10 = - m10 A * invdet, m11 = m00 A * invdet \<rparr>)"

text \<open>
  \<^verbatim>\<open>MatrixBase::normalize\<close> divides the vector by its norm when the squared norm is
  positive and leaves it unchanged otherwise.
\<close>

definition vec3_normalize :: "vec3 \<Rightarrow> vec3" where
  "vec3_normalize v =
     (let z = vec3_squaredNorm v
      in if z > 0 then (case v of (a, b, c) \<Rightarrow> (a / sqrt z, b / sqrt z, c / sqrt z)) else v)"

text \<open>The dot product of two columns of size \<open>n\<close>.\<close>

definition dot :: "nat \<Rightarrow> vecN \<Rightarrow> vecN \<Rightarrow> real" where
  "dot n a b = (\<Sum>i<n. a i * b i)"

subsection \<open>The camera object and its constructor\<close>

record ocam =
  image_size :: "int \<times> int"
  polynomial :: vecN
  principal_point :: vec2
  inverse_polynomial :: vecN
  affine_correction :: mat2
  affine_correction_inverse :: mat2

text \<open>
  The size of the inverse polynomial.  The constructor takes an
  \<^verbatim>\<open>Eigen::Matrix<double, 12, 1>\<close> and the loader passes it an
  \<^verbatim>\<open>Eigen::Matrix<double, kInversePolynomialOrder, 1>\<close>, so the constant is 12.
\<close>

definition kInversePolynomialOrder :: nat where
  "kInversePolynomialOrder = 12"

text \<open>
  \<^verbatim>\<open>result << 1.0, distortion(2), distortion(1), distortion(0)\<close>: the comma initialiser
  fills the matrix row by row.
\<close>

definition distortionToAffineCorrection :: "vec3 \<Rightarrow> mat2" where
  "distortionToAffineCorrection distortion =
     (case distortion of (d0, d1, d2) \<Rightarrow> \<lparr> m00 = 1, m01 = d2, m10 = d1, m11 = d0 \<rparr>)"

definition OCam :: "int \<times> int \<Rightarrow> vecN \<Rightarrow> vec2 \<Rightarrow> vec3 \<Rightarrow> vecN \<Rightarrow> ocam" where
  "OCam image_size' polynomial' principal_point' distortion inverse_polynomial' =
     \<lparr> image_size = image_size',
       polynomial = polynomial',
       principal_point = principal_point',
       inverse_polynomial = inverse_polynomial',
       affine_correction = distortionToAffineCorrection distortion,
       affine_correction_inverse = mat2_inverse (distortionToAffineCorrection distortion) \<rparr>"

subsection \<open>Accessors\<close>

definition getIntrinsicParameters :: "ocam \<Rightarrow> real list" where
  "getIntrinsicParameters cam =
     map (polynomial cam) [0..<5] @ [fst (principal_point cam), snd (principal_point cam)]"

definition getDistortionParameters :: "ocam \<Rightarrow> real list" where
  "getDistortionParameters cam =
     [m00 (affine_correction cam), m01 (affine_correction cam),
      m10 (affine_correction cam), m11 (affine_correction cam)]"

subsection \<open>Back-projection\<close>

text \<open>
  \<^verbatim>\<open>backProject3\<close> writes through \<^verbatim>\<open>out_bearing_vector\<close>; the model returns that
  vector.  \<open>bearing_vector_raw\<close> is its content just before the final
  \<^verbatim>\<open>normalize()\<close>.  The third component is assigned six times in a row (Horner's
  scheme, then the sign flip); each assignment is one \<open>let\<close>.
\<close>

definition bearing_vector_raw :: "ocam \<Rightarrow> vec2 \<Rightarrow> vec3" where
  "bearing_vector_raw cam keypoint =
     (let rectified = mat2_vec (affine_correction_inverse cam)
                        (vec2_sub keypoint (principal_point cam));
          rho = vec2_norm rectified;
          b2 = polynomial cam 4;
          b2 = polynomial cam 3 + b2 * rho;
          b2 = polynomial cam 2 + b2 * rho;
          b2 = polynomial cam 1 + b2 * rho;
          b2 = polynomial cam 0 + b2 * rho;
          b2 = (- 1) * b2
      in (fst rectified, snd rectified, b2))"

definition backProject3 :: "ocam \<Rightarrow> vec2 \<Rightarrow> vec3" where
  "backProject3 cam keypoint = vec3_normalize (bearing_vector_raw cam keypoint)"

subsection \<open>Projection\<close>

text \<open>
  Each local of \<^verbatim>\<open>project3\<close> is a function of the camera and the point, named as in
  the source.  \<open>z\<close> is the sign-flipped third coordinate, \<^verbatim>\<open>-point_3d[2]\<close>.
\<close>

definition x_of :: "vec3 \<Rightarrow> real" where
  "x_of point_3d = fst point_3d"

definition y_of :: "vec3 \<Rightarrow> real" where
  "y_of point_3d = fst (snd point_3d)"

definition z_of :: "vec3 \<Rightarrow> real" where
  "z_of point_3d = - snd (snd point_3d)"

definition xy_norm2 :: "vec3 \<Rightarrow> real" where
  "xy_norm2 p = (x_of p)\<^sup>2 + (y_of p)\<^sup>2"

definition xy_norm :: "vec3 \<Rightarrow> real" where
  "xy_norm p = sqrt (xy_norm2 p)"

definition z_by_xy_norm :: "vec3 \<Rightarrow> real" where
  "z_by_xy_norm p = z_of p / xy_norm p"

definition theta :: "vec3 \<Rightarrow> real" where
  "theta p = arctan (z_by_xy_norm p)"

text \<open>
  \<^verbatim>\<open>theta_powers[0] = 1.0; for (i = 1; i < theta_powers.size(); ++i)
  theta_powers[i] = theta_powers[i-1] * theta;\<close>  The column is uninitialised before the
  loop; every entry is written before it is read.
\<close>

definition theta_powers :: "real \<Rightarrow> vecN" where
  "theta_powers th =
     fold (\<lambda>i tp. tp(i := tp (i - 1) * th)) [1..<kInversePolynomialOrder] ((\<lambda>_. 0)(0 := 1))"

definition rho :: "ocam \<Rightarrow> vec3 \<Rightarrow> real" where
  "rho cam p = dot kInversePolynomialOrder (inverse_polynomial cam) (theta_powers (theta p))"

definition raw_uv :: "ocam \<Rightarrow> vec3 \<Rightarrow> vec2" where
  "raw_uv cam p = (x_of p / xy_norm p * rho cam p, y_of p / xy_norm p * rho cam p)"

text \<open>
  \<^verbatim>\<open>for (i = 1; i < kInversePolynomialOrder; i++)
  drho_dtheta += i * inverse_polynomial_[i] * theta_powers[i-1];\<close>
\<close>

definition drho_dtheta :: "ocam \<Rightarrow> vec3 \<Rightarrow> real" where
  "drho_dtheta cam p =
     fold (\<lambda>i acc. acc + real i * inverse_polynomial cam i * theta_powers (theta p) (i - 1))
       [1..<kInversePolynomialOrder] 0"

definition xyz_norm_sqr :: "vec3 \<Rightarrow> real" where
  "xyz_norm_sqr p = xy_norm2 p + (z_of p)\<^sup>2"

definition dtheta_dx :: "vec3 \<Rightarrow> real" where
  "dtheta_dx p = (- 1 * x_of p * z_by_xy_norm p) / xyz_norm_sqr p"

definition dtheta_dy :: "vec3 \<Rightarrow> real" where
  "dtheta_dy p = (- 1 * y_of p * z_by_xy_norm p) / xyz_norm_sqr p"

definition dtheta_dz :: "vec3 \<Rightarrow> real" where
  "dtheta_dz p = xy_norm p / xyz_norm_sqr p"

definition drho_dx :: "ocam \<Rightarrow> vec3 \<Rightarrow> real" where
  "drho_dx cam p = drho_dtheta cam p * dtheta_dx p"

definition drho_dy :: "ocam \<Rightarrow> vec3 \<Rightarrow> real" where
  "drho_dy cam p = drho_dtheta cam p * dtheta_dy p"

definition drho_dz :: "ocam \<Rightarrow> vec3 \<Rightarrow> real" where
  "drho_dz cam p = drho_dtheta cam p * dtheta_dz p"

definition xy_sqr :: "vec3 \<Rightarrow> real" where
  "xy_sqr p = xy_norm2 p"

definition duraw_dx :: "ocam \<Rightarrow> vec3 \<Rightarrow> real" where
  "duraw_dx cam p =
     (xy_norm p - x_of p * x_of p / xy_norm p) / xy_sqr p * rho cam p
       + drho_dx cam p * x_of p / xy_norm p"

definition duraw_dy :: "ocam \<Rightarrow> vec3 \<Rightarrow> real" where
  "duraw_dy cam p =
     (- 1 * x_of p * y_of p / xy_norm p) / xy_sqr p * rho cam p
       + drho_dy cam p * x_of p / xy_norm p"

definition duraw_dz :: "ocam \<Rightarrow> vec3 \<Rightarrow> real" where
  "duraw_dz cam p = drho_dz cam p * x_of p / xy_norm p"

definition dvraw_dx :: "ocam \<Rightarrow> vec3 \<Rightarrow> real" where
  "dvraw_dx cam p =
     (- 1 * x_of p * y_of p / xy_norm p) / xy_sqr p * rho cam p
       + drho_dx cam p * y_of p / xy_norm p"

definition dvraw_dy :: "ocam \<Rightarrow> vec3 \<Rightarrow> real" where
  "dvraw_dy cam p =
     (xy_norm p - y_of p * y_of p / xy_norm p) / xy_sqr p * rho cam p
       + drho_dy cam p * y_of p / xy_norm p"

definition dvraw_dz :: "ocam \<Rightarrow> vec3 \<Rightarrow> real" where
  "dvraw_dz cam p = drho_dz cam p * y_of p / xy_norm p"

text \<open>
  \<^verbatim>\<open>(*out_jacobian_point) << duraw_dx, duraw_dy, -duraw_dz, dvraw_dx, dvraw_dy,
  -dvraw_dz;\<close> followed by the multiplication with the affine correction.
\<close>

definition jacobian_point :: "ocam \<Rightarrow> vec3 \<Rightarrow> mat23" where
  "jacobian_point cam p =
     mat2_mat23 (affine_correction cam)
       \<lparr> j00 = duraw_dx cam p, j01 = duraw_dy cam p, j02 = - duraw_dz cam p,
         j10 = dvraw_dx cam p, j11 = dvraw_dy cam p, j12 = - dvraw_dz cam p \<rparr>"

text \<open>
  \<^verbatim>\<open>project3\<close> returns the keypoint and, when \<^verbatim>\<open>out_jacobian_point\<close> is not null
  (\<open>want_jacobian\<close>), the Jacobian.
\<close>

definition project3 :: "ocam \<Rightarrow> vec3 \<Rightarrow> bool \<Rightarrow> vec2 \<times> mat23 option" where
  "project3 cam point_3d want_jacobian =
     (vec2_add (mat2_vec (affine_correction cam) (raw_uv cam point_3d)) (principal_point cam),
      if want_jacobian then Some (jacobian_point cam point_3d) else None)"

subsection \<open>The object over its lifetime\<close>

text \<open>
  The public member functions other than the constructor are all \<^verbatim>\<open>const\<close>: a call
  returns its result and the object it was called on.  The text written by
  \<^verbatim>\<open>print\<close> is not modelled.
\<close>

datatype ocam_call =
  CallBackProject3 vec2
| CallProject3 vec3 bool
| CallPrint
| CallGetIntrinsicParameters
| CallGetDistortionParameters

datatype ocam_result =
  BearingVector vec3
| Projection "vec2 \<times> mat23 option"
| Printed
| Parameters "real list"

fun call :: "ocam \<Rightarrow> ocam_call \<Rightarrow> ocam_result \<times> ocam" where
  "call cam (CallBackProject3 keypoint) = (BearingVector (backProject3 cam keypoint), cam)"
| "call cam (CallProject3 point_3d want_jacobian) =
     (Projection (project3 cam point_3d want_jacobian), cam)"
| "call cam CallPrint = (Printed, cam)"
| "call cam CallGetIntrinsicParameters = (Parameters (getIntrinsicParameters cam), cam)"
| "call cam CallGetDistortionParameters = (Parameters (getDistortionParameters cam), cam)"

fun calls :: "ocam \<Rightarrow> ocam_call list \<Rightarrow> ocam" where
  "calls cam [] = cam"
| "calls cam (c # cs) = calls (snd (call cam c)) cs"

subsection \<open>Directions\<close>

text \<open>
  Two vectors point the same way when their cross product vanishes and their inner
  product is positive.
\<close>

definition vec3_cross :: "vec3 \<Rightarrow> vec3 \<Rightarrow> vec3" where
  "vec3_cross a b =
     (case a of (a0, a1, a2) \<Rightarrow> case b of (b0, b1, b2) \<Rightarrow>
        (a1 * b2 - a2 * b1, a2 * b0 - a0 * b2, a0 * b1 - a1 * b0))"

definition vec3_dot :: "vec3 \<Rightarrow> vec3 \<Rightarrow> real" where
  "vec3_dot a b = (case a of (a0, a1, a2) \<Rightarrow> case b of (b0, b1, b2) \<Rightarrow>
        a0 * b0 + a1 * b1 + a2 * b2)"

definition same_direction :: "vec3 \<Rightarrow> vec3 \<Rightarrow> bool" where
  "same_direction a b \<longleftrightarrow> vec3_cross a b = (0, 0, 0) \<and> vec3_dot a b > 0"

subsection \<open>Formatted input from a file stream\<close>

text \<open>
  The loader reads its numbers with \<^verbatim>\<open>operator>>\<close> of \<^verbatim>\<open>std::ifstream\<close>.  The stream
  is the characters not yet consumed and two of its state bits (no read error of the
  device is modelled, so \<^verbatim>\<open>badbit\<close> stays clear).  \<^verbatim>\<open>good()\<close> holds when neither bit
  is set.
\<close>

record istream =
  rest :: string
  eofbit :: bool
  failbit :: bool

definition ifstream_open :: "string \<Rightarrow> istream" where
  "ifstream_open content = \<lparr> rest = content, eofbit = False, failbit = False \<rparr>"

definition good :: "istream \<Rightarrow> bool" where
  "good s \<longleftrightarrow> \<not> eofbit s \<and> \<not> failbit s"

text \<open>White space of the classic locale: space, and the control characters 9 to 13.\<close>

definition isspace :: "char \<Rightarrow> bool" where
  "isspace c \<longleftrightarrow> c \<in> set [CHR '' '', CHR 0x09, CHR 0x0A, CHR 0x0B, CHR 0x0C, CHR 0x0D]"

definition isdigit :: "char \<Rightarrow> bool" where
  "isdigit c \<longleftrightarrow> c \<in> set ''0123456789''"

definition digit_value :: "char \<Rightarrow> nat" where
  "digit_value c = of_char c - 48"

definition digits_value :: "string \<Rightarrow> nat" where
  "digits_value ds = foldl (\<lambda>n c. 10 * n + digit_value c) 0 ds"

text \<open>
  The sentry of a formatted input function: on a stream that is not good it sets
  \<^verbatim>\<open>failbit\<close>; otherwise it skips white space, and running into the end of the
  input there sets \<^verbatim>\<open>eofbit\<close> and \<^verbatim>\<open>failbit\<close>.
\<close>

definition sentry :: "istream \<Rightarrow> bool \<times> istream" where
  "sentry s =
     (if \<not> good s then (False, s\<lparr>failbit := True\<rparr>)
      else let r = dropWhile isspace (rest s)
           in if r = [] then (False, s\<lparr>rest := [], eofbit := True, failbit := True\<rparr>)
              else (True, s\<lparr>rest := r\<rparr>))"

definition take_sign :: "string \<Rightarrow> bool \<times> string" where
  "take_sign r =
     (case r of
        [] \<Rightarrow> (False, [])
      | c # cs \<Rightarrow> if c = CHR ''-'' then (True, cs)
                  else if c = CHR ''+'' then (False, cs) else (False, r))"

text \<open>
  The number parser behind the extraction of an \<^verbatim>\<open>int\<close> (32 bits, decimal): an
  optional sign and the longest run of digits.  It yields the value to store, whether
  the conversion succeeded, and the characters left.  No digit, or a value outside the
  range of \<^verbatim>\<open>int\<close>, is a failure (the value stored is 0, or the bound that was
  crossed).
\<close>

definition get_int :: "string \<Rightarrow> int \<times> bool \<times> string" where
  "get_int r =
     (let (negative, r1) = take_sign r;
          ds = takeWhile isdigit r1;
          r2 = dropWhile isdigit r1;
          n = (if negative then - int (digits_value ds) else int (digits_value ds));
          v = (if ds = [] then 0
               else if n < - 2147483648 then - 2147483648
               else if n > 2147483647 then 2147483647 else n);
          ok = (ds \<noteq> [] \<and> - 2147483648 \<le> n \<and> n \<le> 2147483647)
      in (v, ok, r2))"

text \<open>
  The parser behind the extraction of a \<^verbatim>\<open>double\<close>: an optional sign, digits with at
  most one decimal point, and, once a digit has been seen, an exponent (\<open>e\<close> or \<open>E\<close>,
  an optional sign, digits).  The characters accepted must form a complete number (a
  digit in the mantissa, a digit in an exponent that was started), otherwise the
  conversion fails and 0 is stored.  The value is the decimal number read, as a real.
\<close>

definition decimal_value :: "bool \<Rightarrow> string \<Rightarrow> string \<Rightarrow> int \<Rightarrow> real" where
  "decimal_value negative ip fp ex =
     (let m = real (digits_value (ip @ fp));
          e = ex - int (length fp);
          a = (if e \<ge> 0 then m * 10 ^ nat e else m / 10 ^ nat (- e))
      in if negative then - a else a)"

definition get_double :: "string \<Rightarrow> real \<times> bool \<times> string" where
  "get_double r =
     (let (negative, r1) = take_sign r;
          ip = takeWhile isdigit r1;
          r2 = dropWhile isdigit r1;
          has_point = (r2 \<noteq> [] \<and> hd r2 = CHR ''.'');
          fp = (if has_point then takeWhile isdigit (tl r2) else []);
          r3 = (if has_point then dropWhile isdigit (tl r2) else r2);
          found_mantissa = (ip \<noteq> [] \<or> fp \<noteq> []);
          has_exp = (found_mantissa \<and> r3 \<noteq> [] \<and> (hd r3 = CHR ''e'' \<or> hd r3 = CHR ''E''));
          (exp_negative, r4) = (if has_exp then take_sign (tl r3) else (False, r3));
          ed = (if has_exp then takeWhile isdigit r4 else []);
          r5 = (if has_exp then dropWhile isdigit r4 else r3);
          ex = (if exp_negative then - int (digits_value ed) else int (digits_value ed));
          ok = (found_mantissa \<and> (if has_exp then ed \<noteq> [] else True))
      in (if ok then decimal_value negative ip fp ex else 0, ok, r5))"

text \<open>
  \<^verbatim>\<open>operator>>\<close>: the sentry, then the parser.  Reaching the end of the input while
  scanning sets \<^verbatim>\<open>eofbit\<close>, a failed conversion sets \<^verbatim>\<open>failbit\<close>.  The first argument
  is the content of the target before the extraction, which a failed sentry leaves in
  place.
\<close>

definition extract_int :: "int \<Rightarrow> istream \<Rightarrow> int \<times> istream" where
  "extract_int old s =
     (case sentry s of
        (False, s') \<Rightarrow> (old, s')
      | (True, s') \<Rightarrow>
          (case get_int (rest s') of
             (v, ok, r) \<Rightarrow> (v, s'\<lparr>rest := r, eofbit := (r = []), failbit := \<not> ok\<rparr>)))"

definition extract_double :: "real \<Rightarrow> istream \<Rightarrow> real \<times> istream" where
  "extract_double old s =
     (case sentry s of
        (False, s') \<Rightarrow> (old, s')
      | (True, s') \<Rightarrow>
          (case get_double (rest s') of
             (v, ok, r) \<Rightarrow> (v, s'\<lparr>rest := r, eofbit := (r = []), failbit := \<not> ok\<rparr>)))"

text \<open>\<open>n\<close> extractions in a row, as in \<^verbatim>\<open>fs >> v(0) >> v(1) >> ...\<close> or the loop
  over the inverse polynomial; the column read starts out as \<open>old\<close>.\<close>

fun extract_doubles :: "nat \<Rightarrow> nat \<Rightarrow> vecN \<Rightarrow> istream \<Rightarrow> vecN \<times> istream" where
  "extract_doubles i 0 v s = (v, s)"
| "extract_doubles i (Suc n) v s =
     (let (a, s') = extract_double (v i) s in extract_doubles (Suc i) n (v(i := a)) s')"

subsection \<open>Loading a camera from a parameter file\<close>

text \<open>
  The file system is a map from paths to contents; a path outside its domain cannot
  be opened.  \<^verbatim>\<open>loadOCam\<close> then returns a null pointer.  A failed \<^verbatim>\<open>CHECK\<close> aborts the
  process with its message.  The local columns are uninitialised in the source; they
  start out as zeros here.
\<close>

datatype load_failure = FailToOpen | CheckFailed string

definition loadOCam :: "(string \<rightharpoonup> string) \<Rightarrow> string \<Rightarrow> load_failure + ocam" where
  "loadOCam fs parameter_file =
     (case fs parameter_file of
        None \<Rightarrow> Inl FailToOpen
      | Some content \<Rightarrow>
          let param_fs = ifstream_open content;
              (w, param_fs) = extract_int 0 param_fs;
              (h, param_fs) = extract_int 0 param_fs
          in if \<not> good param_fs then Inl (CheckFailed ''Reading image size fails.'')
          else let (polynomial', param_fs) = extract_doubles 0 5 (\<lambda>_. 0) param_fs
          in if \<not> good param_fs then Inl (CheckFailed ''Reading polynomial fails.'')
          else let (pp, param_fs) = extract_doubles 0 2 (\<lambda>_. 0) param_fs
          in if \<not> good param_fs then Inl (CheckFailed ''Reading principle point fails.'')
          else let (distortion, param_fs) = extract_doubles 0 3 (\<lambda>_. 0) param_fs
          in if \<not> good param_fs then Inl (CheckFailed ''Reading distortion fails.'')
          else let (inverse_polynomial', param_fs) =
                     extract_doubles 0 kInversePolynomialOrder (\<lambda>_. 0) param_fs
          in if \<not> good param_fs then Inl (CheckFailed ''Reading inverse polynomial fails.'')
          else Inr (OCam (w, h) polynomial' (pp 0, pp 1)
                      (distortion 0, distortion 1, distortion 2) inverse_polynomial'))"

subsection \<open>The loader scenario\<close>

text \<open>
  The parameter file of the loader scenario, without its final newline, and the camera
  the five groups of that file describe.
\<close>

definition scenario_file :: string where
  "scenario_file =
     ''640 480\<newline>-100.0 0.0 0.001 0.0 0.0\<newline>320.0 240.0\<newline>1.0 0.0 0.0\<newline>0.0 1.0 0.0 0.0 0.0 0.0 0.0 0.0 0.0 0.0 0.0 0.0''"

definition scenario_cam :: ocam where
  "scenario_cam =
     OCam (640, 480) ((\<lambda>_. 0)(0 := - 100, 2 := 1 / 1000)) (320, 240) (1, 0, 0) ((\<lambda>_. 0)(1 := 1))"

section \<open>Properties\<close>

subsection \<open>The loops of the projection\<close>

lemma theta_powers_fold:
  fixes th :: real
  shows "fold (\<lambda>i tp. tp(i := tp (i - 1) * th)) [1..<Suc n] ((\<lambda>_. 0)(0 := 1)) i
           = (if i \<le> n then th ^ i else 0)"
proof (induction n arbitrary: i)
  case 0
  then show ?case by simp
next
  case (Suc n)
  have "[1..<Suc (Suc n)] = [1..<Suc n] @ [Suc n]" by simp
  then show ?case using Suc by (auto simp del: upt_Suc simp add: le_Suc_eq mult.commute)
qed

lemma theta_powers_eq: "i < kInversePolynomialOrder \<Longrightarrow> theta_powers th i = th ^ i"
  unfolding theta_powers_def kInversePolynomialOrder_def
  using theta_powers_fold [of th 11 i] by (simp add: eval_nat_numeral)

lemma fold_add_upt: "fold (\<lambda>i acc. acc + f i) [a..<b] (s::real) = s + sum f {a..<b}"
proof (induction b arbitrary: s)
  case 0
  then show ?case by simp
next
  case (Suc b)
  then show ?case by (cases "a \<le> b") (simp_all add: sum.atLeastLessThan_Suc)
qed

lemma rho_eq: "rho cam p = (\<Sum>i<12. inverse_polynomial cam i * theta p ^ i)"
  by (simp add: rho_def dot_def theta_powers_eq kInversePolynomialOrder_def)

lemma drho_dtheta_eq:
  "drho_dtheta cam p = (\<Sum>i = 1..<12. real i * inverse_polynomial cam i * theta p ^ (i - 1))"
  unfolding drho_dtheta_def fold_add_upt
  by (simp add: kInversePolynomialOrder_def) (rule sum.cong, auto simp add: theta_powers_eq kInversePolynomialOrder_def)

subsection \<open>The keypoint of a projection\<close>

text \<open>
  C1.  For a point \<open>(x, y, z)\<close> off the optical axis (\<open>sqrt (x\<^sup>2 + y\<^sup>2) > 0\<close>),
  \<^verbatim>\<open>project3\<close> returns the keypoint
  \<open>affineCorrection * (x / xyNorm * rho, y / xyNorm * rho) + principalPoint\<close>, where
  \<open>theta = arctan (- z / xyNorm)\<close> and \<open>rho\<close> is the sum of
  \<open>inversePolynomial[i] * theta ^ i\<close> over the twelve indices \<open>i = 0, ..., 11\<close>.
\<close>

theorem project3_keypoint:
  assumes "sqrt (x\<^sup>2 + y\<^sup>2) > 0"
  shows "fst (project3 cam (x, y, z) want_jacobian) =
     (let xyNorm = sqrt (x\<^sup>2 + y\<^sup>2);
          theta' = arctan (- z / xyNorm);
          rho' = (\<Sum>i<12. inverse_polynomial cam i * theta' ^ i)
      in vec2_add (mat2_vec (affine_correction cam) (x / xyNorm * rho', y / xyNorm * rho'))
           (principal_point cam))"
  by (simp add: project3_def raw_uv_def rho_eq theta_def z_by_xy_norm_def xy_norm_def xy_norm2_def
      x_of_def y_of_def z_of_def Let_def)

theorem project3_keypoint_witness:
  "sqrt (3\<^sup>2 + 4\<^sup>2) > (0::real)
   \<and> fst (project3 scenario_cam (3, 4, - 5) False) = (320 + 3 * pi / 20, 240 + pi / 5)"
proof -
  have "(\<Sum>i<12. inverse_polynomial scenario_cam i * (pi / 4) ^ i) = pi / 4"
    by (simp add: scenario_cam_def OCam_def sum.delta' if_distrib [of "\<lambda>c. c * _"] cong: if_cong)
  then show ?thesis
    using project3_keypoint [where x = 3 and y = 4 and z = "- 5" and cam = scenario_cam and want_jacobian = False]
    by (simp add: Let_def scenario_cam_def OCam_def distortionToAffineCorrection_def
        mat2_vec_def vec2_add_def arctan_one)
qed

subsection \<open>The Jacobian of a projection\<close>

text \<open>
  The derivative of each stage of \<^verbatim>\<open>project3\<close> along a differentiable curve
  \<open>s \<mapsto> (X s, Y s, Z s)\<close> that is off the optical axis at \<open>s = t\<close>: the value the
  code computes for the stage, applied to the velocity \<open>(a, b, c)\<close> of the curve.
\<close>

lemma xy_norm_sq: "(xy_norm p)\<^sup>2 = xy_norm2 p"
  by (simp add: xy_norm_def xy_norm2_def)

lemma halve_quotient:
  fixes s :: real
  shows "(a * (x * 2) + b * (y * 2)) / (2 * s) = (a * x + b * y) / s"
proof -
  have "a * (x * 2) + b * (y * 2) = 2 * (a * x + b * y)" by simp
  then show ?thesis by (simp only: mult_divide_mult_cancel_left_if) simp
qed

lemma xy_norm_curve:
  assumes X: "(X has_real_derivative a) (at t)"
      and Y: "(Y has_real_derivative b) (at t)"
      and pos: "xy_norm (X t, Y t, Z t) > 0"
  shows "((\<lambda>s. xy_norm (X s, Y s, Z s)) has_real_derivative
           (X t * a + Y t * b) / xy_norm (X t, Y t, Z t)) (at t)"
proof -
  have pos': "(X t)\<^sup>2 + (Y t)\<^sup>2 > 0"
    using pos by (simp add: xy_norm_def xy_norm2_def x_of_def y_of_def)
  show ?thesis
    unfolding xy_norm_def xy_norm2_def x_of_def y_of_def fst_conv snd_conv
    using pos' by (auto intro!: derivative_eq_intros X Y simp add: field_simps halve_quotient)
qed

lemma arctan_ratio_curve:
  assumes "(Zf has_real_derivative c) (at t)"
      and "(R has_real_derivative d) (at t)"
      and "R t > 0"
  shows "((\<lambda>s. arctan (- Zf s / R s)) has_real_derivative
           inverse (1 + (- Zf t / R t)\<^sup>2) * ((- c * R t - (- Zf t) * d) / (R t * R t))) (at t)"
proof -
  have "((\<lambda>s. - Zf s / R s) has_real_derivative (- c * R t - (- Zf t) * d) / (R t * R t)) (at t)"
    using assms(3) by (intro DERIV_divide DERIV_minus assms(1) assms(2)) simp
  then show ?thesis
    by (rule DERIV_chain2 [OF DERIV_arctan])
qed

lemma dtheta_algebra:
  fixes r :: real
  assumes "r > 0"
  shows "inverse (1 + (- z / r)\<^sup>2) * ((- c * r - (- z) * ((x * a + y * b) / r)) / (r * r))
       = (- 1 * x * (- z / r)) / (r\<^sup>2 + (- z)\<^sup>2) * a
         + (- 1 * y * (- z / r)) / (r\<^sup>2 + (- z)\<^sup>2) * b
         - r / (r\<^sup>2 + (- z)\<^sup>2) * c"
proof -
  define q where "q = r * r + z * z"
  have q: "q > 0" using assms by (simp add: q_def add_pos_nonneg)
  have q2: "r\<^sup>2 + (- z)\<^sup>2 = q" by (simp add: q_def power2_eq_square)
  have "1 + (- z / r)\<^sup>2 = q / (r * r)"
    using assms by (simp add: q_def power2_eq_square add_divide_distrib)
  then have inv: "inverse (1 + (- z / r)\<^sup>2) = (r * r) / q"
    by (simp add: inverse_eq_divide)
  show ?thesis
    unfolding inv q2 using assms q by (simp add: field_simps)
qed

lemma theta_curve:
  assumes X: "(X has_real_derivative a) (at t)"
      and Y: "(Y has_real_derivative b) (at t)"
      and Z: "(Z has_real_derivative c) (at t)"
      and pos: "xy_norm (X t, Y t, Z t) > 0"
  shows "((\<lambda>s. theta (X s, Y s, Z s)) has_real_derivative
           dtheta_dx (X t, Y t, Z t) * a + dtheta_dy (X t, Y t, Z t) * b
             - dtheta_dz (X t, Y t, Z t) * c) (at t)"
proof -
  have R: "((\<lambda>s. xy_norm (X s, Y s, Z s)) has_real_derivative
             (X t * a + Y t * b) / xy_norm (X t, Y t, Z t)) (at t)"
    using X Y pos by (rule xy_norm_curve)
  have eq: "(\<lambda>s. theta (X s, Y s, Z s)) = (\<lambda>s. arctan (- Z s / xy_norm (X s, Y s, Z s)))"
    by (simp add: theta_def z_by_xy_norm_def z_of_def)
  have "dtheta_dx (X t, Y t, Z t) * a + dtheta_dy (X t, Y t, Z t) * b - dtheta_dz (X t, Y t, Z t) * c
      = inverse (1 + (- Z t / xy_norm (X t, Y t, Z t))\<^sup>2)
          * ((- c * xy_norm (X t, Y t, Z t)
               - (- Z t) * ((X t * a + Y t * b) / xy_norm (X t, Y t, Z t)))
             / (xy_norm (X t, Y t, Z t) * xy_norm (X t, Y t, Z t)))"
    unfolding dtheta_algebra [OF pos]
    by (simp add: dtheta_dx_def dtheta_dy_def dtheta_dz_def xyz_norm_sqr_def z_by_xy_norm_def
        z_of_def x_of_def y_of_def xy_norm_sq)
  then show ?thesis
    unfolding eq using arctan_ratio_curve [OF Z R pos] by simp
qed

lemma polynomial_deriv:
  fixes c :: "nat \<Rightarrow> real"
  shows "((\<lambda>th. \<Sum>i<n. c i * th ^ i) has_real_derivative
           (\<Sum>i = 1..<n. real i * c i * th ^ (i - 1))) (at th)"
proof -
  have "((\<lambda>th. \<Sum>i<n. c i * th ^ i) has_real_derivative
           (\<Sum>i<n. c i * (real i * th ^ (i - Suc 0)))) (at th)"
    by (auto intro!: derivative_eq_intros sum.cong)
  moreover have "(\<Sum>i<n. c i * (real i * th ^ (i - Suc 0)))
      = (\<Sum>i = 1..<n. real i * c i * th ^ (i - 1))"
  proof (cases n)
    case 0
    then show ?thesis by simp
  next
    case (Suc m)
    have "(\<Sum>i<n. c i * (real i * th ^ (i - Suc 0)))
        = (\<Sum>i = 0..<n. c i * (real i * th ^ (i - Suc 0)))"
      by (simp add: lessThan_atLeast0)
    also have "\<dots> = (\<Sum>i = Suc 0..<n. c i * (real i * th ^ (i - Suc 0)))"
      using Suc by (simp add: sum.atLeast_Suc_lessThan)
    also have "\<dots> = (\<Sum>i = 1..<n. real i * c i * th ^ (i - 1))"
      by (simp add: mult.assoc mult.left_commute)
    finally show ?thesis .
  qed
  ultimately show ?thesis by simp
qed

lemma rho_curve:
  assumes X: "(X has_real_derivative a) (at t)"
      and Y: "(Y has_real_derivative b) (at t)"
      and Z: "(Z has_real_derivative c) (at t)"
      and pos: "xy_norm (X t, Y t, Z t) > 0"
  shows "((\<lambda>s. rho cam (X s, Y s, Z s)) has_real_derivative
           drho_dx cam (X t, Y t, Z t) * a + drho_dy cam (X t, Y t, Z t) * b
             - drho_dz cam (X t, Y t, Z t) * c) (at t)"
proof -
  have "((\<lambda>s. \<Sum>i<12. inverse_polynomial cam i * theta (X s, Y s, Z s) ^ i) has_real_derivative
          drho_dtheta cam (X t, Y t, Z t)
            * (dtheta_dx (X t, Y t, Z t) * a + dtheta_dy (X t, Y t, Z t) * b
                - dtheta_dz (X t, Y t, Z t) * c)) (at t)"
    unfolding drho_dtheta_eq
    by (rule DERIV_chain2 [OF polynomial_deriv theta_curve [OF X Y Z pos]])
  then show ?thesis
    by (simp add: rho_eq drho_dx_def drho_dy_def drho_dz_def algebra_simps)
qed

lemma ratio_algebra:
  fixes r :: real
  assumes "r > 0"
  shows "(a * r - x * ((x * a + y * b) / r)) / (r * r) * p + (dx * a + dy * b - dz * c) * (x / r)
       = ((r - x * x / r) / r\<^sup>2 * p + dx * x / r) * a
         + ((- 1 * x * y / r) / r\<^sup>2 * p + dy * x / r) * b
         - (dz * x / r) * c"
  using assms by (simp add: power2_eq_square field_simps)

lemma raw_u_curve:
  assumes X: "(X has_real_derivative a) (at t)"
      and Y: "(Y has_real_derivative b) (at t)"
      and Z: "(Z has_real_derivative c) (at t)"
      and pos: "xy_norm (X t, Y t, Z t) > 0"
  shows "((\<lambda>s. fst (raw_uv cam (X s, Y s, Z s))) has_real_derivative
           duraw_dx cam (X t, Y t, Z t) * a + duraw_dy cam (X t, Y t, Z t) * b
             - duraw_dz cam (X t, Y t, Z t) * c) (at t)"
proof -
  let ?p = "(X t, Y t, Z t)"
  have R: "((\<lambda>s. xy_norm (X s, Y s, Z s)) has_real_derivative
             (X t * a + Y t * b) / xy_norm ?p) (at t)"
    using X Y pos by (rule xy_norm_curve)
  have "((\<lambda>s. X s / xy_norm (X s, Y s, Z s) * rho cam (X s, Y s, Z s)) has_real_derivative
          (a * xy_norm ?p - X t * ((X t * a + Y t * b) / xy_norm ?p)) / (xy_norm ?p * xy_norm ?p)
             * rho cam ?p
           + (drho_dx cam ?p * a + drho_dy cam ?p * b - drho_dz cam ?p * c)
             * (X t / xy_norm ?p)) (at t)"
    using pos by (intro DERIV_mult DERIV_divide X R rho_curve [OF X Y Z pos]) simp
  then show ?thesis
    unfolding ratio_algebra [OF pos]
    by (simp add: raw_uv_def duraw_dx_def duraw_dy_def duraw_dz_def xy_sqr_def x_of_def y_of_def
        xy_norm_sq)
qed

lemma ratio_algebra':
  fixes r :: real
  assumes "r > 0"
  shows "(b * r - y * ((x * a + y * b) / r)) / (r * r) * p + (dx * a + dy * b - dz * c) * (y / r)
       = ((- 1 * x * y / r) / r\<^sup>2 * p + dx * y / r) * a
         + ((r - y * y / r) / r\<^sup>2 * p + dy * y / r) * b
         - (dz * y / r) * c"
  using assms by (simp add: power2_eq_square field_simps)

lemma raw_v_curve:
  assumes X: "(X has_real_derivative a) (at t)"
      and Y: "(Y has_real_derivative b) (at t)"
      and Z: "(Z has_real_derivative c) (at t)"
      and pos: "xy_norm (X t, Y t, Z t) > 0"
  shows "((\<lambda>s. snd (raw_uv cam (X s, Y s, Z s))) has_real_derivative
           dvraw_dx cam (X t, Y t, Z t) * a + dvraw_dy cam (X t, Y t, Z t) * b
             - dvraw_dz cam (X t, Y t, Z t) * c) (at t)"
proof -
  let ?p = "(X t, Y t, Z t)"
  have R: "((\<lambda>s. xy_norm (X s, Y s, Z s)) has_real_derivative
             (X t * a + Y t * b) / xy_norm ?p) (at t)"
    using X Y pos by (rule xy_norm_curve)
  have "((\<lambda>s. Y s / xy_norm (X s, Y s, Z s) * rho cam (X s, Y s, Z s)) has_real_derivative
          (b * xy_norm ?p - Y t * ((X t * a + Y t * b) / xy_norm ?p)) / (xy_norm ?p * xy_norm ?p)
             * rho cam ?p
           + (drho_dx cam ?p * a + drho_dy cam ?p * b - drho_dz cam ?p * c)
             * (Y t / xy_norm ?p)) (at t)"
    using pos by (intro DERIV_mult DERIV_divide Y R rho_curve [OF X Y Z pos]) simp
  then show ?thesis
    unfolding ratio_algebra' [OF pos]
    by (simp add: raw_uv_def dvraw_dx_def dvraw_dy_def dvraw_dz_def xy_sqr_def x_of_def y_of_def
        xy_norm_sq)
qed

lemma keypoint_curve:
  assumes X: "(X has_real_derivative a) (at t)"
      and Y: "(Y has_real_derivative b) (at t)"
      and Z: "(Z has_real_derivative c) (at t)"
      and pos: "xy_norm (X t, Y t, Z t) > 0"
  shows "((\<lambda>s. fst (fst (project3 cam (X s, Y s, Z s) w))) has_real_derivative
           j00 (jacobian_point cam (X t, Y t, Z t)) * a
           + j01 (jacobian_point cam (X t, Y t, Z t)) * b
           + j02 (jacobian_point cam (X t, Y t, Z t)) * c) (at t)"
    and "((\<lambda>s. snd (fst (project3 cam (X s, Y s, Z s) w))) has_real_derivative
           j10 (jacobian_point cam (X t, Y t, Z t)) * a
           + j11 (jacobian_point cam (X t, Y t, Z t)) * b
           + j12 (jacobian_point cam (X t, Y t, Z t)) * c) (at t)"
proof -
  note U = raw_u_curve [OF X Y Z pos, of cam]
  note V = raw_v_curve [OF X Y Z pos, of cam]
  show "((\<lambda>s. fst (fst (project3 cam (X s, Y s, Z s) w))) has_real_derivative
           j00 (jacobian_point cam (X t, Y t, Z t)) * a
           + j01 (jacobian_point cam (X t, Y t, Z t)) * b
           + j02 (jacobian_point cam (X t, Y t, Z t)) * c) (at t)"
    unfolding project3_def mat2_vec_def vec2_add_def fst_conv snd_conv
    by (auto intro!: derivative_eq_intros U V
        simp add: jacobian_point_def mat2_mat23_def algebra_simps)
  show "((\<lambda>s. snd (fst (project3 cam (X s, Y s, Z s) w))) has_real_derivative
           j10 (jacobian_point cam (X t, Y t, Z t)) * a
           + j11 (jacobian_point cam (X t, Y t, Z t)) * b
           + j12 (jacobian_point cam (X t, Y t, Z t)) * c) (at t)"
    unfolding project3_def mat2_vec_def vec2_add_def fst_conv snd_conv
    by (auto intro!: derivative_eq_intros U V
        simp add: jacobian_point_def mat2_mat23_def algebra_simps)
qed

text \<open>
  C3.  For a point off the optical axis, the 2x3 matrix that \<^verbatim>\<open>project3\<close> returns when
  the Jacobian is requested is the derivative of the keypoint with respect to
  \<open>(x, y, z)\<close>: entry \<open>(i, j)\<close> is the partial derivative of keypoint coordinate \<open>i\<close>
  with respect to coordinate \<open>j\<close> of the point (exact real arithmetic).  By
  \<open>keypoint_curve\<close> the same matrix gives the derivative along every differentiable
  curve through the point.
\<close>

theorem project3_jacobian:
  assumes "xy_norm (x, y, z) > 0"
  shows "\<exists>J. snd (project3 cam (x, y, z) True) = Some J
     \<and> ((\<lambda>x'. fst (fst (project3 cam (x', y, z) w))) has_real_derivative j00 J) (at x)
     \<and> ((\<lambda>y'. fst (fst (project3 cam (x, y', z) w))) has_real_derivative j01 J) (at y)
     \<and> ((\<lambda>z'. fst (fst (project3 cam (x, y, z') w))) has_real_derivative j02 J) (at z)
     \<and> ((\<lambda>x'. snd (fst (project3 cam (x', y, z) w))) has_real_derivative j10 J) (at x)
     \<and> ((\<lambda>y'. snd (fst (project3 cam (x, y', z) w))) has_real_derivative j11 J) (at y)
     \<and> ((\<lambda>z'. snd (fst (project3 cam (x, y, z') w))) has_real_derivative j12 J) (at z)"
proof -
  have id: "((\<lambda>s. s) has_real_derivative 1) (at s)" for s :: real by simp
  have const: "((\<lambda>s. k) has_real_derivative 0) (at s)" for k s :: real by simp
  note dx = keypoint_curve [where X = "\<lambda>s. s" and Y = "\<lambda>s. y" and Z = "\<lambda>s. z" and t = x
      and cam = cam and w = w, OF id const const, simplified]
  note dy = keypoint_curve [where X = "\<lambda>s. x" and Y = "\<lambda>s. s" and Z = "\<lambda>s. z" and t = y
      and cam = cam and w = w, OF const id const, simplified]
  note dz = keypoint_curve [where X = "\<lambda>s. x" and Y = "\<lambda>s. y" and Z = "\<lambda>s. s" and t = z
      and cam = cam and w = w, OF const const id, simplified]
  show ?thesis
    using assms dx dy dz by (simp add: project3_def)
qed

theorem project3_jacobian_witness:
  "xy_norm (3, 4, - 5) > 0
   \<and> (\<exists>J. snd (project3 scenario_cam (3, 4, - 5) True) = Some J
     \<and> ((\<lambda>x'. fst (fst (project3 scenario_cam (x', 4, - 5) False))) has_real_derivative j00 J) (at 3)
     \<and> ((\<lambda>y'. fst (fst (project3 scenario_cam (3, y', - 5) False))) has_real_derivative j01 J) (at 4)
     \<and> ((\<lambda>z'. fst (fst (project3 scenario_cam (3, 4, z') False))) has_real_derivative j02 J) (at (- 5))
     \<and> ((\<lambda>x'. snd (fst (project3 scenario_cam (x', 4, - 5) False))) has_real_derivative j10 J) (at 3)
     \<and> ((\<lambda>y'. snd (fst (project3 scenario_cam (3, y', - 5) False))) has_real_derivative j11 J) (at 4)
     \<and> ((\<lambda>z'. snd (fst (project3 scenario_cam (3, 4, z') False))) has_real_derivative j12 J) (at (- 5)))"
proof -
  have pos: "xy_norm (3, 4, - 5) > 0"
    by (simp add: xy_norm_def xy_norm2_def x_of_def y_of_def)
  show ?thesis
    using pos project3_jacobian [OF pos, of scenario_cam False] by blast
qed

text \<open>The point \<open>(3, 4, z)\<close> lies at distance 5 from the optical axis.\<close>

lemma sqrt_25: "sqrt 25 = 5"
  using real_sqrt_abs [of 5] by simp

lemma xy_norm_3_4: "xy_norm (3, 4, z) = 5"
  by (simp add: xy_norm_def xy_norm2_def x_of_def y_of_def sqrt_25)

text \<open>
  C5, as the code has it.  For a point off the optical axis, with \<open>z' = - z\<close> and
  \<open>xyzNormSqr = xyNorm\<^sup>2 + z'\<^sup>2\<close>, the partial derivatives of \<open>theta\<close> used in the
  Jacobian are \<open>- x * z' / (xyNorm * xyzNormSqr)\<close>, \<open>- y * z' / (xyNorm * xyzNormSqr)\<close>
  and \<open>xyNorm / xyzNormSqr\<close>: in the first two the code multiplies by the quotient
  \<open>z' / xyNorm\<close>, not by \<open>z'\<close>.
\<close>

theorem dtheta_as_computed:
  assumes "sqrt (x\<^sup>2 + y\<^sup>2) > 0"
  shows "let z' = - z; xyNorm = sqrt (x\<^sup>2 + y\<^sup>2); xyzNormSqr = xyNorm\<^sup>2 + z'\<^sup>2
     in dtheta_dx (x, y, z) = - x * z' / (xyNorm * xyzNormSqr)
      \<and> dtheta_dy (x, y, z) = - y * z' / (xyNorm * xyzNormSqr)
      \<and> dtheta_dz (x, y, z) = xyNorm / xyzNormSqr"
  by (simp add: Let_def dtheta_dx_def dtheta_dy_def dtheta_dz_def xyz_norm_sqr_def
      z_by_xy_norm_def xy_norm_def xy_norm2_def x_of_def y_of_def z_of_def)

theorem dtheta_as_computed_witness:
  "sqrt (3\<^sup>2 + 4\<^sup>2) > (0::real)
   \<and> dtheta_dx (3, 4, - 5) = - 3 / 50 \<and> dtheta_dy (3, 4, - 5) = - 2 / 25
   \<and> dtheta_dz (3, 4, - 5) = 1 / 10"
  using dtheta_as_computed [of 3 4 "- 5"] by (simp add: Let_def sqrt_25)

text \<open>
  C5 as stated, with \<open>- x * z' / xyzNormSqr\<close> and \<open>- y * z' / xyzNormSqr\<close>, fails at
  the point \<open>(3, 4, -5)\<close>, where \<open>xyNorm = 5\<close>, \<open>z' = 5\<close> and \<open>xyzNormSqr = 50\<close>: the
  code computes \<open>- 3 / 50\<close> for the derivative with respect to \<open>x\<close>, the formula as
  stated gives \<open>- 3 / 10\<close>.
\<close>

theorem dtheta_counterexample:
  "sqrt (3\<^sup>2 + 4\<^sup>2) > (0::real)
   \<and> \<not> (dtheta_dx (3, 4, - 5) = - 3 * 5 / ((sqrt (3\<^sup>2 + 4\<^sup>2))\<^sup>2 + 5\<^sup>2)
        \<and> dtheta_dy (3, 4, - 5) = - 4 * 5 / ((sqrt (3\<^sup>2 + 4\<^sup>2))\<^sup>2 + 5\<^sup>2)
        \<and> dtheta_dz (3, 4, - 5) = sqrt (3\<^sup>2 + 4\<^sup>2) / ((sqrt (3\<^sup>2 + 4\<^sup>2))\<^sup>2 + 5\<^sup>2))"
  by (simp add: dtheta_dx_def xyz_norm_sqr_def z_by_xy_norm_def xy_norm_def xy_norm2_def
      x_of_def y_of_def z_of_def sqrt_25)

subsection \<open>Back-projection\<close>

lemma horner5:
  fixes r :: real
  shows "- 1 * (p0 + (p1 + (p2 + (p3 + p4 * r) * r) * r) * r)
       = - (p0 + p1 * r + p2 * r\<^sup>2 + p3 * r ^ 3 + p4 * r ^ 4)"
  by (simp add: power2_eq_square power3_eq_cube power4_eq_xxxx algebra_simps)

text \<open>
  C2.  For every keypoint, \<^verbatim>\<open>backProject3\<close> returns the normalisation of
  \<open>(rectified.x, rectified.y, zRaw)\<close>, where
  \<open>rectified = affineCorrectionInverse * (keypoint - principalPoint)\<close>, \<open>rho\<close> is the
  Euclidean norm of \<open>rectified\<close>, and \<open>zRaw\<close> is the negated value at \<open>rho\<close> of the
  polynomial with the five coefficients \<open>poly[0], ..., poly[4]\<close>, which the code
  evaluates by Horner's scheme from \<open>poly[4]\<close> down to \<open>poly[0]\<close>.
\<close>

theorem backProject3_formula:
  "backProject3 cam keypoint =
     (let rectified = mat2_vec (affine_correction_inverse cam) (vec2_sub keypoint (principal_point cam));
          rho' = sqrt ((fst rectified)\<^sup>2 + (snd rectified)\<^sup>2);
          zRaw = - (polynomial cam 0 + polynomial cam 1 * rho' + polynomial cam 2 * rho'\<^sup>2
                    + polynomial cam 3 * rho' ^ 3 + polynomial cam 4 * rho' ^ 4)
      in vec3_normalize (fst rectified, snd rectified, zRaw))"
proof -
  define rectified where
    "rectified = mat2_vec (affine_correction_inverse cam) (vec2_sub keypoint (principal_point cam))"
  define r where "r = sqrt ((fst rectified)\<^sup>2 + (snd rectified)\<^sup>2)"
  have norm: "vec2_norm rectified = r"
    by (simp add: vec2_norm_def r_def power2_eq_square)
  have "bearing_vector_raw cam keypoint =
      (fst rectified, snd rectified,
       - 1 * (polynomial cam 0 + (polynomial cam 1 + (polynomial cam 2
           + (polynomial cam 3 + polynomial cam 4 * r) * r) * r) * r))"
    unfolding bearing_vector_raw_def Let_def rectified_def [symmetric] norm by (rule refl)
  then show ?thesis
    unfolding backProject3_def Let_def rectified_def [symmetric] r_def [symmetric] horner5
    by (rule arg_cong)
qed

lemma vec3_squaredNorm_pos:
  assumes "v \<noteq> (0, 0, 0)"
  shows "vec3_squaredNorm v > 0"
proof -
  obtain a b c where v: "v = (a, b, c)" by (cases v)
  have "0 \<le> a * a" "0 \<le> b * b" "0 \<le> c * c" by simp_all
  moreover have "0 < a * a \<or> 0 < b * b \<or> 0 < c * c"
    using assms by (auto simp add: v zero_less_mult_iff)
  ultimately have "0 < a * a + b * b + c * c" by linarith
  then show ?thesis by (simp add: v vec3_squaredNorm_def)
qed

lemma vec3_normalize_unit:
  assumes "v \<noteq> (0, 0, 0)"
  shows "vec3_norm (vec3_normalize v) = 1"
proof -
  have pos: "vec3_squaredNorm v > 0" using assms by (rule vec3_squaredNorm_pos)
  obtain a b c where v: "v = (a, b, c)" by (cases v)
  define n where "n = a * a + b * b + c * c"
  have n: "n > 0" using pos by (simp add: v vec3_squaredNorm_def n_def)
  have "vec3_normalize v = (a / sqrt n, b / sqrt n, c / sqrt n)"
    using n by (simp add: v vec3_normalize_def vec3_squaredNorm_def n_def Let_def)
  then have "vec3_squaredNorm (vec3_normalize v) = (a * a + b * b + c * c) / (sqrt n * sqrt n)"
    by (simp add: vec3_squaredNorm_def add_divide_distrib)
  also have "\<dots> = 1" using n by (simp add: n_def)
  finally show ?thesis by (simp add: vec3_norm_def)
qed

text \<open>
  C7.  Whenever the vector assembled before the normalisation is not the zero vector,
  the vector returned by \<^verbatim>\<open>backProject3\<close> has Euclidean norm 1.
\<close>

theorem backProject3_unit_norm:
  assumes "bearing_vector_raw cam keypoint \<noteq> (0, 0, 0)"
  shows "vec3_norm (backProject3 cam keypoint) = 1"
  using assms by (simp add: backProject3_def vec3_normalize_unit)

theorem backProject3_unit_norm_witness:
  "bearing_vector_raw scenario_cam (320, 240) \<noteq> (0, 0, 0)
   \<and> vec3_norm (backProject3 scenario_cam (320, 240)) = 1"
proof -
  have raw: "bearing_vector_raw scenario_cam (320, 240) = (0, 0, 100)"
    by (simp add: bearing_vector_raw_def scenario_cam_def OCam_def Let_def vec2_sub_def
        mat2_vec_def vec2_norm_def)
  show ?thesis
    using backProject3_unit_norm [where cam = scenario_cam and keypoint = "(320, 240)"] by (simp add: raw)
qed

subsection \<open>Construction\<close>

text \<open>
  C4.  Construction from the distortion triple \<open>(d0, d1, d2)\<close> sets the affine
  correction to the matrix with rows \<open>[1, d2]\<close> and \<open>[d1, d0]\<close>, and
  \<^verbatim>\<open>getDistortionParameters\<close> then returns \<open>[1, d2, d1, d0]\<close>.
\<close>

theorem affine_correction_layout:
  "affine_correction (OCam image_size' polynomial' principal_point' (d0, d1, d2) inverse_polynomial')
     = \<lparr> m00 = 1, m01 = d2, m10 = d1, m11 = d0 \<rparr>
   \<and> getDistortionParameters (OCam image_size' polynomial' principal_point' (d0, d1, d2) inverse_polynomial')
     = [1, d2, d1, d0]"
  by (simp add: OCam_def distortionToAffineCorrection_def getDistortionParameters_def)

lemma calls_unchanged: "calls cam cs = cam"
  by (induction cs) (simp_all, metis call.simps snd_conv ocam_call.exhaust)

lemma mat2_inverse_right:
  assumes "mat2_determinant A \<noteq> 0"
  shows "mat2_mat2 A (mat2_inverse A) = mat2_identity"
proof -
  define k where "k = 1 / mat2_determinant A"
  have k: "(m00 A * m11 A - m10 A * m01 A) * k = 1"
    using assms by (simp add: k_def mat2_determinant_def)
  have "m00 A * (m11 A * k) + m01 A * (- m10 A * k) = (m00 A * m11 A - m10 A * m01 A) * k"
       "m10 A * (- m01 A * k) + m11 A * (m00 A * k) = (m00 A * m11 A - m10 A * m01 A) * k"
       "m00 A * (- m01 A * k) + m01 A * (m00 A * k) = 0"
       "m10 A * (m11 A * k) + m11 A * (- m10 A * k) = 0"
    by (simp_all add: algebra_simps)
  then show ?thesis
    unfolding mat2_mat2_def mat2_inverse_def mat2_identity_def Let_def k_def [symmetric]
    by (simp add: k)
qed

text \<open>
  C8.  For a distortion triple whose affine correction is not singular
  (\<open>1 * d0 - d2 * d1 \<noteq> 0\<close>), the product of the affine correction and its stored
  inverse is the identity matrix, on the constructed object and after any sequence of
  calls of its member functions.
\<close>

theorem affine_inverse_invariant:
  assumes "1 * d0 - d2 * d1 \<noteq> 0"
  shows "let cam = calls (OCam image_size' polynomial' principal_point' (d0, d1, d2) inverse_polynomial') cs
     in mat2_mat2 (affine_correction cam) (affine_correction_inverse cam) = mat2_identity"
proof -
  have "mat2_determinant (distortionToAffineCorrection (d0, d1, d2)) \<noteq> 0"
    using assms by (simp add: mat2_determinant_def distortionToAffineCorrection_def mult.commute)
  then show ?thesis
    by (simp add: calls_unchanged OCam_def mat2_inverse_right)
qed

theorem affine_inverse_invariant_witness:
  "1 * 1 - 0 * 0 \<noteq> (0::real)
   \<and> (let cam = calls (OCam (640, 480) ((\<lambda>_. 0)(0 := - 100, 2 := 1 / 1000)) (320, 240) (1, 0, 0)
                      ((\<lambda>_. 0)(1 := 1)))
                  [CallProject3 (3, 4, - 5) True, CallPrint, CallBackProject3 (320, 240)]
      in mat2_mat2 (affine_correction cam) (affine_correction_inverse cam) = mat2_identity)"
  using affine_inverse_invariant [where ?d0.0 = 1 and ?d1.0 = 0 and ?d2.0 = 0
      and image_size' = "(640, 480)" and polynomial' = "(\<lambda>_. 0)(0 := - 100, 2 := 1 / 1000)"
      and principal_point' = "(320, 240)" and inverse_polynomial' = "(\<lambda>_. 0)(1 := 1)"
      and cs = "[CallProject3 (3, 4, - 5) True, CallPrint, CallBackProject3 (320, 240)]"]
  by simp

subsection \<open>Projection followed by back-projection\<close>

lemma mat2_inverse_left_vec:
  assumes "mat2_determinant A \<noteq> 0"
  shows "mat2_vec (mat2_inverse A) (mat2_vec A v) = v"
proof -
  define k where "k = 1 / mat2_determinant A"
  have k: "(m00 A * m11 A - m10 A * m01 A) * k = 1"
    using assms by (simp add: k_def mat2_determinant_def)
  obtain a b where v: "v = (a, b)" by (cases v)
  have "m11 A * k * (m00 A * a + m01 A * b) + - m01 A * k * (m10 A * a + m11 A * b)
          = ((m00 A * m11 A - m10 A * m01 A) * k) * a"
       "- m10 A * k * (m00 A * a + m01 A * b) + m00 A * k * (m10 A * a + m11 A * b)
          = ((m00 A * m11 A - m10 A * m01 A) * k) * b"
    by (simp_all add: algebra_simps)
  then show ?thesis
    unfolding mat2_vec_def mat2_inverse_def Let_def k_def [symmetric] v
    by (simp add: k)
qed

lemma vec3_normalize_scale:
  assumes "k > 0"
  shows "vec3_normalize (k * a, k * b, k * c) = vec3_normalize (a, b, c)"
proof (cases "(a, b, c) = (0, 0, 0)")
  case True
  then show ?thesis by simp
next
  case False
  define n where "n = a * a + b * b + c * c"
  have n: "n > 0"
    using vec3_squaredNorm_pos [OF False] by (simp add: vec3_squaredNorm_def n_def)
  have sq: "k * a * (k * a) + k * b * (k * b) + k * c * (k * c) = k\<^sup>2 * n"
    by (simp add: n_def power2_eq_square algebra_simps)
  have root: "sqrt (k\<^sup>2 * n) = k * sqrt n"
    using assms by (simp add: real_sqrt_mult)
  have pos: "k\<^sup>2 * n > 0"
    using assms n by simp
  have "vec3_normalize (k * a, k * b, k * c)
      = (k * a / (k * sqrt n), k * b / (k * sqrt n), k * c / (k * sqrt n))"
    using pos by (simp add: vec3_normalize_def vec3_squaredNorm_def Let_def sq root)
  also have "\<dots> = (a / sqrt n, b / sqrt n, c / sqrt n)"
    using assms by simp
  also have "\<dots> = vec3_normalize (a, b, c)"
    using n by (simp add: vec3_normalize_def vec3_squaredNorm_def Let_def n_def)
  finally show ?thesis .
qed

text \<open>
  Pointing the same way as a vector other than zero is being a positive multiple of
  it.
\<close>

lemma same_direction_iff:
  assumes "b \<noteq> (0, 0, 0)"
  shows "same_direction a b \<longleftrightarrow>
    (\<exists>k>0. a = (k * fst b, k * fst (snd b), k * snd (snd b)))"
proof
  obtain a0 a1 a2 where a: "a = (a0, a1, a2)" by (cases a)
  obtain b0 b1 b2 where b: "b = (b0, b1, b2)" by (cases b)
  define n where "n = b0 * b0 + b1 * b1 + b2 * b2"
  have n: "n > 0"
    using vec3_squaredNorm_pos [OF assms] by (simp add: b vec3_squaredNorm_def n_def)
  {
    assume "same_direction a b"
    then have e1: "a1 * b2 - a2 * b1 = 0" and e2: "a2 * b0 - a0 * b2 = 0"
      and e3: "a0 * b1 - a1 * b0 = 0" and d: "a0 * b0 + a1 * b1 + a2 * b2 > 0"
      by (simp_all add: same_direction_def vec3_cross_def vec3_dot_def a b)
    define k where "k = (a0 * b0 + a1 * b1 + a2 * b2) / n"
    have k: "k > 0" using d n by (simp add: k_def)
    have "n * a0 = (a0 * b0 + a1 * b1 + a2 * b2) * b0"
         "n * a1 = (a0 * b0 + a1 * b1 + a2 * b2) * b1"
         "n * a2 = (a0 * b0 + a1 * b1 + a2 * b2) * b2"
      unfolding n_def using e1 e2 e3 by algebra+
    then have "a0 = k * b0" "a1 = k * b1" "a2 = k * b2"
      using n by (simp_all add: k_def field_simps)
    then show "\<exists>k>0. a = (k * fst b, k * fst (snd b), k * snd (snd b))"
      using k by (auto simp add: a b)
  }
  {
    assume "\<exists>k>0. a = (k * fst b, k * fst (snd b), k * snd (snd b))"
    then obtain k where k: "k > 0" and ak: "a = (k * b0, k * b1, k * b2)"
      by (auto simp add: b)
    have "k * b0 * b0 + k * b1 * b1 + k * b2 * b2 = k * n"
      by (simp add: n_def algebra_simps)
    then show "same_direction a b"
      using k n by (simp add: same_direction_def vec3_cross_def vec3_dot_def ak b)
  }
qed

lemma same_direction_normalize:
  "same_direction (vec3_normalize v) p \<longleftrightarrow> same_direction v p"
proof (cases "vec3_squaredNorm v > 0")
  case False
  then show ?thesis by (simp add: vec3_normalize_def)
next
  case True
  obtain a b c where v: "v = (a, b, c)" by (cases v)
  obtain x y z where p: "p = (x, y, z)" by (cases p)
  define k where "k = 1 / sqrt (vec3_squaredNorm v)"
  have k: "k > 0" using True by (simp add: k_def)
  have nv: "vec3_normalize v = (k * a, k * b, k * c)"
    using True by (simp add: vec3_normalize_def v k_def Let_def)
  have cross: "vec3_cross (k * a, k * b, k * c) (x, y, z)
      = (k * (b * z - c * y), k * (c * x - a * z), k * (a * y - b * x))"
    by (simp add: vec3_cross_def algebra_simps)
  have dot: "vec3_dot (k * a, k * b, k * c) (x, y, z) = k * (a * x + b * y + c * z)"
    by (simp add: vec3_dot_def algebra_simps)
  show ?thesis
    unfolding same_direction_def nv p cross dot
    using k by (simp add: v vec3_cross_def vec3_dot_def zero_less_mult_iff)
qed

lemma same_direction_normalize_self:
  assumes "p \<noteq> (0, 0, 0)"
  shows "same_direction (vec3_normalize p) p"
proof -
  obtain x y z where p: "p = (x, y, z)" by (cases p)
  have "vec3_squaredNorm p > 0" using assms by (rule vec3_squaredNorm_pos)
  then show ?thesis
    unfolding same_direction_normalize
    by (simp add: same_direction_def vec3_cross_def vec3_dot_def vec3_squaredNorm_def p)
qed

text \<open>
  The camera of the loader scenario: its forward polynomial is \<open>rho = theta\<close>, its
  backward polynomial \<open>- 100 + rho\<^sup>2 / 1000\<close>, its affine correction the identity.
\<close>

lemma scenario_keypoint:
  "fst (project3 scenario_cam (3, 4, z) w)
     = (320 + 3 / 5 * arctan (- z / 5), 240 + 4 / 5 * arctan (- z / 5))"
proof -
  have "rho scenario_cam (3, 4, z) = arctan (- z / 5)"
    by (simp add: rho_eq theta_def z_by_xy_norm_def z_of_def xy_norm_3_4 scenario_cam_def OCam_def
        sum.delta' if_distrib [of "\<lambda>c. c * _"] cong: if_cong)
  then show ?thesis
    by (simp add: project3_def raw_uv_def xy_norm_3_4 x_of_def y_of_def scenario_cam_def OCam_def
        distortionToAffineCorrection_def mat2_vec_def vec2_add_def)
qed

lemma scenario_bearing_raw:
  "bearing_vector_raw scenario_cam (320 + 3 / 5 * t, 240 + 4 / 5 * t)
     = (3 / 5 * t, 4 / 5 * t, 100 - t\<^sup>2 / 1000)"
proof -
  have "(3 / 5 * t) * (3 / 5 * t) + (4 / 5 * t) * (4 / 5 * t) = t\<^sup>2"
    by (simp add: power2_eq_square algebra_simps)
  then have "vec2_norm (3 / 5 * t, 4 / 5 * t) = \<bar>t\<bar>"
    by (simp add: vec2_norm_def)
  then show ?thesis
    by (simp add: bearing_vector_raw_def scenario_cam_def OCam_def Let_def vec2_sub_def
        distortionToAffineCorrection_def mat2_inverse_def mat2_determinant_def mat2_vec_def
        power2_eq_square)
qed

lemma pi_square_bound: "pi\<^sup>2 < 16"
proof -
  have "pi * pi < 4 * 4"
    by (intro mult_strict_mono) (use pi_less_4 pi_gt_zero in simp_all)
  then show ?thesis by (simp add: power2_eq_square)
qed

text \<open>
  C6 as stated fails: nothing in the code ties the two polynomials of a camera to each
  other.  Take the camera of the loader scenario and the points \<open>(3, 4, 5)\<close> and
  \<open>(3, 4, -5)\<close>: both are off the optical axis, and one of them has positive depth
  whichever way the optical axis is taken to point.  They project to
  \<open>(320 - 3 * pi / 20, 240 - pi / 5)\<close> and \<open>(320 + 3 * pi / 20, 240 + pi / 5)\<close>,
  inside the 640 by 480 image, and the back-projection of neither keypoint points
  along the point it came from (the cross product of the two does not vanish, so they
  are not even on one line).
\<close>

theorem round_trip_counterexample:
  "xy_norm (3, 4, 5) > 0
   \<and> \<not> (vec3_norm (backProject3 scenario_cam (fst (project3 scenario_cam (3, 4, 5) False))) = 1
        \<and> same_direction (backProject3 scenario_cam (fst (project3 scenario_cam (3, 4, 5) False)))
             (3, 4, 5))
   \<and> xy_norm (3, 4, - 5) > 0
   \<and> \<not> (vec3_norm (backProject3 scenario_cam (fst (project3 scenario_cam (3, 4, - 5) False))) = 1
        \<and> same_direction (backProject3 scenario_cam (fst (project3 scenario_cam (3, 4, - 5) False)))
             (3, 4, - 5))"
proof -
  have neg: "- pi - 400 + pi\<^sup>2 / 4000 < 0"
    using pi_square_bound pi_gt_zero by linarith
  have a: "\<not> same_direction (3 / 5 * (- (pi / 4)), 4 / 5 * (- (pi / 4)), 100 - (- (pi / 4))\<^sup>2 / 1000) (3, 4, 5)"
    using neg by (simp add: same_direction_def vec3_cross_def power2_eq_square)
  have b: "\<not> same_direction (3 / 5 * (pi / 4), 4 / 5 * (pi / 4), 100 - (pi / 4)\<^sup>2 / 1000) (3, 4, - 5)"
    using neg by (simp add: same_direction_def vec3_cross_def power2_eq_square)
  have ka: "fst (project3 scenario_cam (3, 4, 5) False) = (320 + 3 / 5 * (- (pi / 4)), 240 + 4 / 5 * (- (pi / 4)))"
    unfolding scenario_keypoint by (simp add: arctan_minus arctan_one)
  have kb: "fst (project3 scenario_cam (3, 4, - 5) False) = (320 + 3 / 5 * (pi / 4), 240 + 4 / 5 * (pi / 4))"
    unfolding scenario_keypoint by (simp add: arctan_one)
  show ?thesis
    unfolding ka kb backProject3_def scenario_bearing_raw same_direction_normalize
    using a b by (simp add: xy_norm_3_4)
qed

lemma xy_norm_nonzero: "xy_norm p > 0 \<Longrightarrow> p \<noteq> (0, 0, 0)"
  by (auto simp add: xy_norm_def xy_norm2_def x_of_def y_of_def)

lemma sum_lessThan_5:
  fixes f :: "nat \<Rightarrow> real"
  shows "(\<Sum>i<5. f i) = f 0 + f 1 + f 2 + f 3 + f 4"
  by (simp add: eval_nat_numeral)

text \<open>
  C6, for a calibrated point.  Let the camera be constructed from a distortion triple
  whose affine correction is not singular, and let \<open>p\<close> be a point off the optical axis
  at which the two polynomials agree: \<open>rho\<close>, the value of the inverse polynomial at
  \<open>theta\<close>, is positive, and the value of the polynomial at \<open>rho\<close> is \<open>rho * tan theta\<close>.
  Then back-projecting the keypoint of \<open>p\<close> yields \<open>p\<close> divided by its norm: a vector of
  norm 1 that points along \<open>p\<close>.
\<close>

theorem round_trip_calibrated:
  fixes p :: vec3 and image_size' :: "int \<times> int" and polynomial' inverse_polynomial' :: vecN
    and principal_point' :: vec2 and d0 d1 d2 :: real
  defines "cam \<equiv> OCam image_size' polynomial' principal_point' (d0, d1, d2) inverse_polynomial'"
  assumes det: "1 * d0 - d2 * d1 \<noteq> 0"
      and pos: "xy_norm p > 0"
      and rho_pos: "rho cam p > 0"
      and consistent: "(\<Sum>i<5. polynomial cam i * rho cam p ^ i) = rho cam p * tan (theta p)"
  shows "backProject3 cam (fst (project3 cam p w)) = vec3_normalize p
     \<and> vec3_norm (backProject3 cam (fst (project3 cam p w))) = 1
     \<and> same_direction (backProject3 cam (fst (project3 cam p w))) p"
proof -
  obtain x y z where p: "p = (x, y, z)" by (cases p)
  define r where "r = xy_norm p"
  define q where "q = rho cam p"
  have r: "r > 0" using pos by (simp add: r_def)
  have q: "q > 0" using rho_pos by (simp add: q_def)
  have r2: "x * x + y * y = r * r"
    using xy_norm_sq [of p] by (simp add: r_def p xy_norm2_def x_of_def y_of_def power2_eq_square)
  have A: "affine_correction cam = distortionToAffineCorrection (d0, d1, d2)"
    and Ainv: "affine_correction_inverse cam = mat2_inverse (distortionToAffineCorrection (d0, d1, d2))"
    and pp: "principal_point cam = principal_point'"
    by (simp_all add: cam_def OCam_def)
  have detA: "mat2_determinant (distortionToAffineCorrection (d0, d1, d2)) \<noteq> 0"
    using det by (simp add: mat2_determinant_def distortionToAffineCorrection_def mult.commute)
  have raw: "raw_uv cam p = (x / r * q, y / r * q)"
    by (simp add: raw_uv_def r_def q_def p x_of_def y_of_def)
  have rect: "mat2_vec (affine_correction_inverse cam)
        (vec2_sub (fst (project3 cam p w)) (principal_point cam)) = (x / r * q, y / r * q)"
    unfolding project3_def fst_conv raw A Ainv
    using mat2_inverse_left_vec [OF detA, of "(x / r * q, y / r * q)"]
    by (simp add: vec2_sub_def vec2_add_def)
  have "(x / r * q) * (x / r * q) + (y / r * q) * (y / r * q) = (x * x + y * y) / (r * r) * (q * q)"
    using r by (simp add: field_simps)
  also have "\<dots> = q * q" using r by (simp add: r2)
  finally have norm: "vec2_norm (x / r * q, y / r * q) = q"
    using q by (simp add: vec2_norm_def)
  have tan: "tan (theta p) = - z / r"
    by (simp add: theta_def tan_arctan z_by_xy_norm_def z_of_def p r_def)
  have poly: "polynomial cam 0 + polynomial cam 1 * q + polynomial cam 2 * q\<^sup>2
        + polynomial cam 3 * q ^ 3 + polynomial cam 4 * q ^ 4 = q * (- z / r)"
    using consistent unfolding sum_lessThan_5 q_def [symmetric] tan by simp
  have "bearing_vector_raw cam (fst (project3 cam p w)) = (x / r * q, y / r * q, - (q * (- z / r)))"
    unfolding bearing_vector_raw_def Let_def rect norm horner5 poly by simp
  also have "\<dots> = (q / r * x, q / r * y, q / r * z)"
    by simp
  finally have raw': "bearing_vector_raw cam (fst (project3 cam p w))
      = (q / r * x, q / r * y, q / r * z)" .
  have "backProject3 cam (fst (project3 cam p w))
      = vec3_normalize (q / r * x, q / r * y, q / r * z)"
    by (simp only: backProject3_def raw')
  also have "\<dots> = vec3_normalize (x, y, z)"
    using r q by (intro vec3_normalize_scale) simp
  finally have eq: "backProject3 cam (fst (project3 cam p w)) = vec3_normalize p"
    by (simp only: p)
  have nz: "p \<noteq> (0, 0, 0)" using pos by (rule xy_norm_nonzero)
  show ?thesis
    unfolding eq using nz by (simp add: vec3_normalize_unit same_direction_normalize_self)
qed

theorem round_trip_calibrated_witness:
  "1 * 1 - 0 * 0 \<noteq> (0::real)
   \<and> xy_norm (3, 4, - 5) > 0
   \<and> rho (OCam (640, 480) ((\<lambda>_. 0)(1 := 1)) (320, 240) (1, 0, 0) ((\<lambda>_. 0)(0 := 1))) (3, 4, - 5) > 0
   \<and> backProject3 (OCam (640, 480) ((\<lambda>_. 0)(1 := 1)) (320, 240) (1, 0, 0) ((\<lambda>_. 0)(0 := 1)))
        (fst (project3 (OCam (640, 480) ((\<lambda>_. 0)(1 := 1)) (320, 240) (1, 0, 0) ((\<lambda>_. 0)(0 := 1)))
               (3, 4, - 5) False))
       = vec3_normalize (3, 4, - 5)
   \<and> same_direction
        (backProject3 (OCam (640, 480) ((\<lambda>_. 0)(1 := 1)) (320, 240) (1, 0, 0) ((\<lambda>_. 0)(0 := 1)))
          (fst (project3 (OCam (640, 480) ((\<lambda>_. 0)(1 := 1)) (320, 240) (1, 0, 0) ((\<lambda>_. 0)(0 := 1)))
               (3, 4, - 5) False)))
        (3, 4, - 5)"
proof -
  let ?cam = "OCam (640, 480) ((\<lambda>_. 0)(1 := 1)) (320, 240) (1, 0, 0) ((\<lambda>_. 0)(0 := 1))"
  have rho: "rho ?cam (3, 4, - 5) = 1"
    by (simp add: rho_eq OCam_def sum.delta' if_distrib [of "\<lambda>c. c * _"] cong: if_cong)
  have tan: "tan (theta (3, 4, - 5)) = 1"
    by (simp add: theta_def tan_arctan z_by_xy_norm_def z_of_def xy_norm_3_4)
  have consistent: "(\<Sum>i<5. polynomial ?cam i * rho ?cam (3, 4, - 5) ^ i)
      = rho ?cam (3, 4, - 5) * tan (theta (3, 4, - 5))"
    unfolding rho tan by (simp add: OCam_def sum.delta' if_distrib [of "\<lambda>c. c * _"] cong: if_cong)
  have det: "1 * 1 - 0 * 0 \<noteq> (0::real)" by simp
  have pos: "xy_norm (3, 4, - 5) > 0" by (simp add: xy_norm_3_4)
  have rho_pos: "rho ?cam (3, 4, - 5) > 0" by (simp only: rho zero_less_one)
  show ?thesis
    using det pos rho_pos round_trip_calibrated [OF det pos rho_pos consistent, of False]
    by blast
qed

subsection \<open>Loading\<close>

text \<open>Characters that end a number, and the literal characters of the scenario.\<close>

lemma isspace_delimits:
  assumes "isspace d"
  shows "\<not> isdigit d" "d \<noteq> CHR ''.''" "d \<noteq> CHR ''e''" "d \<noteq> CHR ''E''"
    "d \<noteq> CHR ''-''" "d \<noteq> CHR ''+''"
  using assms by (auto simp add: isspace_def isdigit_def)

lemma isdigit_literal:
  "isdigit CHR ''0''" "isdigit CHR ''1''" "isdigit CHR ''2''" "isdigit CHR ''3''"
  "isdigit CHR ''4''" "isdigit CHR ''5''" "isdigit CHR ''6''" "isdigit CHR ''7''"
  "isdigit CHR ''8''" "isdigit CHR ''9''" "\<not> isdigit CHR ''.''" "\<not> isdigit CHR ''-''"
  by (simp_all add: isdigit_def)

lemma isspace_literal:
  "isspace CHR '' ''" "isspace CHR ''\<newline>''"
  "\<not> isspace CHR ''0''" "\<not> isspace CHR ''1''" "\<not> isspace CHR ''2''" "\<not> isspace CHR ''3''"
  "\<not> isspace CHR ''4''" "\<not> isspace CHR ''5''" "\<not> isspace CHR ''6''" "\<not> isspace CHR ''7''"
  "\<not> isspace CHR ''8''" "\<not> isspace CHR ''9''" "\<not> isspace CHR ''.''" "\<not> isspace CHR ''-''"
  by (simp_all add: isspace_def)

text \<open>On a good stream the sentry skips a white-space character and stops at any other.\<close>

lemma sentry_skip:
  "isspace c \<Longrightarrow>
     sentry \<lparr>rest = c # r, eofbit = False, failbit = False\<rparr>
       = sentry \<lparr>rest = r, eofbit = False, failbit = False\<rparr>"
  by (simp add: sentry_def good_def)

lemma sentry_token:
  "\<not> isspace c \<Longrightarrow>
     sentry \<lparr>rest = c # r, eofbit = False, failbit = False\<rparr>
       = (True, \<lparr>rest = c # r, eofbit = False, failbit = False\<rparr>)"
  by (simp add: sentry_def good_def)

lemma extract_int_skip:
  "isspace c \<Longrightarrow>
     extract_int old \<lparr>rest = c # r, eofbit = False, failbit = False\<rparr>
       = extract_int old \<lparr>rest = r, eofbit = False, failbit = False\<rparr>"
  by (simp only: extract_int_def sentry_skip)

lemma extract_double_skip:
  "isspace c \<Longrightarrow>
     extract_double old \<lparr>rest = c # r, eofbit = False, failbit = False\<rparr>
       = extract_double old \<lparr>rest = r, eofbit = False, failbit = False\<rparr>"
  by (simp only: extract_double_def sentry_skip)

text \<open>
  An extraction that consumes the last character of the input leaves the stream with
  \<^verbatim>\<open>eofbit\<close> set, hence not good, whatever it read.
\<close>

lemma extract_double_exhausts:
  "rest (snd (extract_double old s)) = [] \<Longrightarrow> \<not> good (snd (extract_double old s))"
  by (auto simp add: extract_double_def sentry_def good_def Let_def split: prod.splits if_splits)

text \<open>The numbers of the scenario, each followed by white space.\<close>

lemmas get_defs = get_int_def get_double_def Let_def take_sign_def digits_value_def
  digit_value_def decimal_value_def isspace_delimits isdigit_literal

lemma extract_int_tokens:
  assumes "isspace d"
  shows "extract_int old \<lparr>rest = ''640'' @ d # r, eofbit = False, failbit = False\<rparr>
           = (640, \<lparr>rest = d # r, eofbit = False, failbit = False\<rparr>)"
    and "extract_int old \<lparr>rest = ''480'' @ d # r, eofbit = False, failbit = False\<rparr>
           = (480, \<lparr>rest = d # r, eofbit = False, failbit = False\<rparr>)"
  using assms by (simp_all add: extract_int_def sentry_token isspace_literal get_defs)

lemma extract_double_tokens:
  assumes "isspace d"
  shows "extract_double old \<lparr>rest = ''-100.0'' @ d # r, eofbit = False, failbit = False\<rparr>
           = (- 100, \<lparr>rest = d # r, eofbit = False, failbit = False\<rparr>)"
    and "extract_double old \<lparr>rest = ''0.0'' @ d # r, eofbit = False, failbit = False\<rparr>
           = (0, \<lparr>rest = d # r, eofbit = False, failbit = False\<rparr>)"
    and "extract_double old \<lparr>rest = ''0.001'' @ d # r, eofbit = False, failbit = False\<rparr>
           = (1 / 1000, \<lparr>rest = d # r, eofbit = False, failbit = False\<rparr>)"
    and "extract_double old \<lparr>rest = ''320.0'' @ d # r, eofbit = False, failbit = False\<rparr>
           = (320, \<lparr>rest = d # r, eofbit = False, failbit = False\<rparr>)"
    and "extract_double old \<lparr>rest = ''240.0'' @ d # r, eofbit = False, failbit = False\<rparr>
           = (240, \<lparr>rest = d # r, eofbit = False, failbit = False\<rparr>)"
    and "extract_double old \<lparr>rest = ''1.0'' @ d # r, eofbit = False, failbit = False\<rparr>
           = (1, \<lparr>rest = d # r, eofbit = False, failbit = False\<rparr>)"
  using assms by (simp_all add: extract_double_def sentry_token isspace_literal get_defs)

text \<open>The last number of the scenario, with nothing after it.\<close>

lemma extract_double_token_last:
  "extract_double old \<lparr>rest = ''0.0'', eofbit = False, failbit = False\<rparr>
     = (0, \<lparr>rest = [], eofbit = True, failbit = False\<rparr>)"
  by (simp add: extract_double_def sentry_token isspace_literal get_defs)

lemmas extract_tokens =
  extract_int_tokens [simplified] extract_double_tokens [simplified] extract_double_token_last

text \<open>
  C9.  Loading the scenario file with its final newline succeeds; on the camera loaded,
  \<^verbatim>\<open>getIntrinsicParameters\<close> returns \<open>[-100, 0, 0.001, 0, 0, 320, 240]\<close> and
  \<^verbatim>\<open>getDistortionParameters\<close> returns \<open>[1, 0, 0, 1]\<close>.
\<close>

theorem loadOCam_scenario:
  "\<exists>cam. loadOCam (fs(parameter_file \<mapsto> scenario_file @ ''\<newline>'')) parameter_file = Inr cam
     \<and> getIntrinsicParameters cam = [- 100, 0, 1 / 1000, 0, 0, 320, 240]
     \<and> getDistortionParameters cam = [1, 0, 0, 1]"
  by (simp add: loadOCam_def scenario_file_def ifstream_open_def good_def
      kInversePolynomialOrder_def eval_nat_numeral extract_int_skip extract_double_skip
      extract_tokens isspace_literal getIntrinsicParameters_def getDistortionParameters_def
      OCam_def distortionToAffineCorrection_def)

text \<open>
  C10.  There is a file with exactly the 24 numbers required that \<^verbatim>\<open>loadOCam\<close> does
  not turn into a camera: the scenario file without its final newline.  The first four
  groups pass their checks.  For the last group, which starts at the newline after the
  distortion, all twelve values are read as written and no conversion fails, but
  reading the last one reaches the end of the file: \<^verbatim>\<open>eofbit\<close> is set, the stream is
  no longer good, and the last \<^verbatim>\<open>CHECK\<close> aborts the load.
\<close>

theorem loadOCam_no_final_newline:
  "loadOCam (fs(parameter_file \<mapsto> scenario_file)) parameter_file
     = Inl (CheckFailed ''Reading inverse polynomial fails.'')
   \<and> (\<exists>v. extract_doubles 0 kInversePolynomialOrder (\<lambda>_. 0)
            \<lparr>rest = ''\<newline>0.0 1.0 0.0 0.0 0.0 0.0 0.0 0.0 0.0 0.0 0.0 0.0'',
             eofbit = False, failbit = False\<rparr>
          = (v, \<lparr>rest = [], eofbit = True, failbit = False\<rparr>)
        \<and> map v [0..<12] = [0, 1, 0, 0, 0, 0, 0, 0, 0, 0, 0, 0])"
  by (simp add: loadOCam_def scenario_file_def ifstream_open_def good_def
      kInversePolynomialOrder_def eval_nat_numeral extract_int_skip extract_double_skip
      extract_tokens isspace_literal)

end
